theory Spec2Isabelle
  imports Main "HOL-Library.Word"
begin

section \<open>Errors and byte slices\<close>

text \<open>
  The Go sources handle values of the interface type \<open>error\<close>; a nil error is \<open>None\<close>
  of \<open>error option\<close>. The constructors are the errors the sources create, compare against
  or receive from the standard library.
\<close>

datatype error =
    Canceled                 \<comment> \<open>\<open>context.Canceled\<close>\<close>
  | DeadlineExceeded         \<comment> \<open>\<open>context.DeadlineExceeded\<close>\<close>
  | ErrExtraButton           \<comment> \<open>\<open>zenity.ErrExtraButton\<close>\<close>
  | ExitError int string     \<comment> \<open>\<open>*exec.ExitError\<close>: exit code and the process state's text\<close>
  | ErrorString string       \<comment> \<open>\<open>errors.New(msg)\<close>\<close>
  | OtherError string bool   \<comment> \<open>any other error: its text, and what its \<open>Timeout()\<close> reports\<close>

text \<open>
  \<open>err.Error()\<close>. The text of \<open>zenity.ErrExtraButton\<close> is declared outside these
  sources and no function here asks for it, so it has no equation.
\<close>

fun Error :: "error \<Rightarrow> string" where
  "Error Canceled = ''context canceled''"
| "Error DeadlineExceeded = ''context deadline exceeded''"
| "Error (ExitError c s) = s"
| "Error (ErrorString s) = s"
| "Error (OtherError s t) = s"

text \<open>
  \<open>os.IsTimeout(err)\<close>: the error has a \<open>Timeout()\<close> method that returns true. Of the
  errors named here only \<open>context.DeadlineExceeded\<close> has one.
\<close>

fun IsTimeout :: "error option \<Rightarrow> bool" where
  "IsTimeout None = False"
| "IsTimeout (Some DeadlineExceeded) = True"
| "IsTimeout (Some (OtherError s t)) = t"
| "IsTimeout (Some e) = False"

text \<open>A \<open>[]byte\<close>: \<open>None\<close> is the nil slice; \<open>string(out)\<close> of nil is the empty string.\<close>

type_synonym bytes = "string option"

fun string_of :: "bytes \<Rightarrow> string" where
  "string_of None = []"
| "string_of (Some b) = b"

section \<open>The functions of package \<open>strings\<close> and \<open>bytes\<close> that the sources call\<close>

fun Join :: "string list \<Rightarrow> string \<Rightarrow> string" where
  "Join [] sep = []"
| "Join [x] sep = x"
| "Join (x # y # ys) sep = x @ sep @ Join (y # ys) sep"

text \<open>\<open>strings.Index\<close>: the position of the first instance of \<open>substr\<close>, \<open>None\<close> for -1.\<close>

fun Index :: "string \<Rightarrow> string \<Rightarrow> nat option" where
  "Index [] substr = (if substr = [] then Some 0 else None)"
| "Index (c # s) substr =
     (if take (length substr) (c # s) = substr then Some 0
      else map_option Suc (Index s substr))"

text \<open>
  The loop of \<open>strings.genSplit\<close> for a non-empty separator: cut at the first instance of
  \<open>sep\<close>, at most \<open>n\<close> times, and end with the remainder.
\<close>

fun genSplit :: "nat \<Rightarrow> string \<Rightarrow> string \<Rightarrow> string list" where
  "genSplit 0 s sep = [s]"
| "genSplit (Suc n) s sep =
     (case Index s sep of
        None \<Rightarrow> [s]
      | Some m \<Rightarrow> take m s # genSplit n (drop (m + length sep) s) sep)"

text \<open>
  \<open>strings.SplitN\<close> and \<open>strings.Split\<close> for a non-empty separator, the only kind the
  sources pass. A count of 0 gives nil (here the empty list), a negative count all
  substrings: a string of \<open>length s\<close> bytes has at most \<open>length s\<close> instances of a
  non-empty separator.
\<close>

definition SplitN :: "string \<Rightarrow> string \<Rightarrow> int \<Rightarrow> string list" where
  "SplitN s sep n =
     (if n = 0 then []
      else if n < 0 then genSplit (length s) s sep
      else genSplit (nat n - 1) s sep)"

definition Split :: "string \<Rightarrow> string \<Rightarrow> string list" where
  "Split s sep = SplitN s sep (- 1)"

definition TrimSuffix :: "string \<Rightarrow> string \<Rightarrow> string" where
  "TrimSuffix s suffix =
     (if length suffix \<le> length s \<and> drop (length s - length suffix) s = suffix
      then take (length s - length suffix) s else s)"

section \<open>Contexts\<close>

text \<open>
  A \<open>context.Context\<close> is read by the sources only through \<open>ctx.Err()\<close>, which is nil
  until the context is done and one of two errors from then on. A context value says
  whether and when it is done by the time \<open>ctx.Err()\<close> is read after the child process
  a call waited for: not done, done before that child exited, or done after it exited.
\<close>

datatype ctx_cause = CtxCanceled | CtxDeadlineExceeded

fun ctx_error :: "ctx_cause \<Rightarrow> error" where
  "ctx_error CtxCanceled = Canceled"
| "ctx_error CtxDeadlineExceeded = DeadlineExceeded"

datatype Ctx = Live | FiredBeforeExit ctx_cause | FiredAfterExit ctx_cause

fun ctx_Err :: "Ctx \<Rightarrow> error option" where
  "ctx_Err Live = None"
| "ctx_Err (FiredBeforeExit e) = Some (ctx_error e)"
| "ctx_Err (FiredAfterExit e) = Some (ctx_error e)"

section \<open>The command-line front end: \<open>cmd/zenity/main.go\<close>\<close>

subsection \<open>Flags, options and the environment\<close>

definition unspecified :: string where
  "unspecified = [CHR 0x00]"

record FileFilter =
  Name :: string
  Patterns :: "string list"

text \<open>A \<open>color.Color\<close>, by its red, green, blue and alpha values.\<close>

type_synonym color = "nat \<times> nat \<times> nat \<times> nat"

text \<open>
  The \<open>zenity.Option\<close> values the front end builds, one constructor per option function.
  A \<open>zenity.DialogIcon\<close> is an integer; its named constants are declared outside these
  sources and are fields of the environment below.
\<close>

datatype Option =
    Title string
  | Width nat
  | Height nat
  | OKLabel string
  | CancelLabel string
  | ExtraButton string
  | Icon int
  | NoWrap
  | Ellipsize
  | DefaultCancel
  | EntryText string
  | HideText
  | DisallowEmpty
  | Directory
  | ConfirmOverwrite
  | ConfirmCreate
  | ShowHidden
  | Filename string
  | FileFilters "FileFilter list"
  | Color color
  | ShowPalette
  | Context Ctx

text \<open>
  The package-level variables of \<open>main.go\<close>, with the three variables of package
  \<open>zenutil\<close> that the flags set (\<open>Command\<close>, \<open>Timeout\<close>, \<open>Separator\<close>). The counter
  \<open>columns\<close> is passed to \<open>addColumn\<close> on its own.
\<close>

record flags =
  errorDlg :: bool
  infoDlg :: bool
  warningDlg :: bool
  questionDlg :: bool
  entryDlg :: bool
  listDlg :: bool
  passwordDlg :: bool
  fileSelectionDlg :: bool
  colorSelectionDlg :: bool
  notification :: bool
  title :: string
  width :: nat
  height :: nat
  okLabel :: string
  cancelLabel :: string
  extraButton :: string
  "text" :: string
  icon :: string
  multiple :: bool
  noWrap :: bool
  ellipsize :: bool
  defaultCancel :: bool
  entryText :: string
  hideText :: bool
  allowEmpty :: bool
  save :: bool
  directory :: bool
  confirmOverwrite :: bool
  confirmCreate :: bool
  showHidden :: bool
  filename :: string
  fileFilters :: "FileFilter list"
  defaultColor :: string
  showPalette :: bool
  cygpath :: bool
  wslpath :: bool
  Command :: bool
  Timeout :: int
  Separator :: string

text \<open>
  What \<open>main.go\<close> uses and does not declare: the operating system's name, the constants
  and helpers of packages \<open>zenity\<close> and \<open>zenutil\<close>, and the result of running an
  external command (\<open>exec.Command(...).Output()\<close>).
\<close>

record env =
  GOOS :: string
  LineBreak :: string
  ErrorIcon :: int
  InfoIcon :: int
  QuestionIcon :: int
  WarningIcon :: int
  PasswordIcon :: int
  NoIcon :: int
  ParseColor :: "string \<Rightarrow> color"
  UnparseColor :: "color \<Rightarrow> string"
  Output :: "string list \<Rightarrow> bytes \<times> error option"

text \<open>The variables as \<open>setupFlags\<close> leaves them, before any flag is parsed.\<close>

definition setupFlags :: flags where
  "setupFlags = \<lparr>errorDlg = False, infoDlg = False, warningDlg = False, questionDlg = False,
     entryDlg = False, listDlg = False, passwordDlg = False, fileSelectionDlg = False,
     colorSelectionDlg = False, notification = False,
     title = unspecified, width = 0, height = 0, okLabel = unspecified,
     cancelLabel = unspecified, extraButton = unspecified, text = unspecified,
     icon = unspecified, multiple = False,
     noWrap = False, ellipsize = False, defaultCancel = False,
     entryText = [], hideText = False, allowEmpty = True,
     save = False, directory = False, confirmOverwrite = False, confirmCreate = False,
     showHidden = False, filename = [], fileFilters = [],
     defaultColor = [], showPalette = False, cygpath = False, wslpath = False,
     Command = False, Timeout = 0, Separator = ''|''\<rparr>"

subsection \<open>\<open>main\<close>, lines 94 to 99\<close>

text \<open>
  \<open>main\<close> switches command mode on and, when a timeout is set, appends a context with
  that timeout to the options. \<open>c\<close> is the context \<open>context.WithTimeout\<close> returns.
\<close>

definition main_setup :: "flags \<Rightarrow> Option list \<Rightarrow> Ctx \<Rightarrow> Option list \<times> flags" where
  "main_setup f opts c =
     (let f = f\<lparr>Command := True\<rparr>
      in if Timeout f > 0 then (opts @ [Context c], f) else (opts, f))"

subsection \<open>\<open>ingestPath\<close> and \<open>loadFlags\<close>\<close>

definition ingestPath :: "env \<Rightarrow> flags \<Rightarrow> string \<Rightarrow> string" where
  "ingestPath E f path =
     (if GOOS E = ''windows'' \<and> path \<noteq> [] then
        (let args = (if wslpath f then Some [''wsl'', ''wslpath'', ''-m'']
                     else if cygpath f then Some [''cygpath'', ''-C'', ''UTF8'', ''-m'']
                     else None)
         in case args of
              None \<Rightarrow> path
            | Some a \<Rightarrow>
                (case Output E (a @ [path]) of
                   (out, None) \<Rightarrow> TrimSuffix (string_of out) [CHR 0x0A]
                 | (out, Some e) \<Rightarrow> path))
      else path)"

text \<open>The closure \<open>setDefault\<close> of \<open>loadFlags\<close>, as a function of the variable's value.\<close>

definition setDefault :: "string \<Rightarrow> string \<Rightarrow> string" where
  "setDefault s val = (if s = unspecified then val else s)"

text \<open>The first \<open>switch\<close> of \<open>loadFlags\<close>: the defaults of the selected dialog.\<close>

definition loadDefaults :: "flags \<Rightarrow> flags" where
  "loadDefaults f =
     (if errorDlg f then
        f\<lparr>title := setDefault (title f) ''Error'',
          icon := setDefault (icon f) ''dialog-error'',
          text := setDefault (text f) ''An error has occurred.'',
          okLabel := setDefault (okLabel f) ''OK''\<rparr>
      else if infoDlg f then
        f\<lparr>title := setDefault (title f) ''Information'',
          icon := setDefault (icon f) ''dialog-information'',
          text := setDefault (text f) ''All updates are complete.'',
          okLabel := setDefault (okLabel f) ''OK''\<rparr>
      else if warningDlg f then
        f\<lparr>title := setDefault (title f) ''Warning'',
          icon := setDefault (icon f) ''dialog-warning'',
          text := setDefault (text f) ''Are you sure you want to proceed?'',
          okLabel := setDefault (okLabel f) ''OK''\<rparr>
      else if questionDlg f then
        f\<lparr>title := setDefault (title f) ''Question'',
          icon := setDefault (icon f) ''dialog-question'',
          text := setDefault (text f) ''Are you sure you want to proceed?'',
          okLabel := setDefault (okLabel f) ''Yes'',
          cancelLabel := setDefault (cancelLabel f) ''No''\<rparr>
      else if entryDlg f then
        f\<lparr>title := setDefault (title f) ''Add a new entry'',
          text := setDefault (text f) ''Enter new text:'',
          okLabel := setDefault (okLabel f) ''OK'',
          cancelLabel := setDefault (cancelLabel f) ''Cancel''\<rparr>
      else if listDlg f then
        f\<lparr>title := setDefault (title f) ''Select items from the list'',
          text := setDefault (text f) ''Select items from the list below:'',
          okLabel := setDefault (okLabel f) ''OK'',
          cancelLabel := setDefault (cancelLabel f) ''Cancel''\<rparr>
      else if passwordDlg f then
        f\<lparr>title := setDefault (title f) ''Type your password'',
          icon := setDefault (icon f) ''dialog-password'',
          okLabel := setDefault (okLabel f) ''OK'',
          cancelLabel := setDefault (cancelLabel f) ''Cancel''\<rparr>
      else
        f\<lparr>text := setDefault (text f) []\<rparr>)"

text \<open>
  The second \<open>switch\<close> of \<open>loadFlags\<close>: \<open>ico\<close> starts as the zero value of
  \<open>zenity.DialogIcon\<close> and keeps it when no case matches.
\<close>

definition loadIcon :: "env \<Rightarrow> string \<Rightarrow> int" where
  "loadIcon E i =
     (if i = ''error'' \<or> i = ''dialog-error'' then ErrorIcon E
      else if i = ''info'' \<or> i = ''dialog-information'' then InfoIcon E
      else if i = ''question'' \<or> i = ''dialog-question'' then QuestionIcon E
      else if i = ''important'' \<or> i = ''warning'' \<or> i = ''dialog-warning'' then WarningIcon E
      else if i = ''dialog-password'' then PasswordIcon E
      else if i = [] then NoIcon E
      else 0)"

text \<open>\<open>loadFlags\<close> returns the options and the variables as it leaves them.\<close>

definition loadFlags :: "env \<Rightarrow> flags \<Rightarrow> Option list \<times> flags" where
  "loadFlags E f0 =
     (let f = loadDefaults f0;
          opts = [];
          opts = (if title f \<noteq> unspecified then opts @ [Title (title f)] else opts);
          opts = opts @ [Width (width f)];
          opts = opts @ [Height (height f)];
          opts = (if okLabel f \<noteq> unspecified then opts @ [OKLabel (okLabel f)] else opts);
          opts = (if cancelLabel f \<noteq> unspecified
                  then opts @ [CancelLabel (cancelLabel f)] else opts);
          opts = (if extraButton f \<noteq> unspecified
                  then opts @ [ExtraButton (extraButton f)] else opts);
          opts = opts @ [Icon (loadIcon E (icon f))];
          opts = (if noWrap f then opts @ [NoWrap] else opts);
          opts = (if ellipsize f then opts @ [Ellipsize] else opts);
          opts = (if defaultCancel f then opts @ [DefaultCancel] else opts);
          opts = opts @ [EntryText (entryText f)];
          opts = (if hideText f then opts @ [HideText] else opts);
          opts = (if \<not> allowEmpty f then opts @ [DisallowEmpty] else opts);
          opts = (if directory f then opts @ [Directory] else opts);
          opts = (if confirmOverwrite f then opts @ [ConfirmOverwrite] else opts);
          opts = (if confirmCreate f then opts @ [ConfirmCreate] else opts);
          opts = (if showHidden f then opts @ [ShowHidden] else opts);
          opts = (if filename f \<noteq> []
                  then opts @ [Filename (ingestPath E f (filename f))] else opts);
          opts = opts @ [FileFilters (fileFilters f)];
          opts = (if defaultColor f \<noteq> []
                  then opts @ [Color (ParseColor E (defaultColor f))] else opts);
          opts = (if showPalette f then opts @ [ShowPalette] else opts)
      in (opts, f))"

subsection \<open>The result functions\<close>

text \<open>
  Each result function ends the process with \<open>os.Exit\<close>: its value is what the process
  wrote to standard output and to standard error, and the code it passed to \<open>os.Exit\<close>.
\<close>

record exit =
  stdout :: string
  stderr :: string
  code :: int

definition Exit :: "string \<Rightarrow> string \<Rightarrow> int \<Rightarrow> exit" where
  "Exit out err c = \<lparr>stdout = out, stderr = err, code = c\<rparr>"

definition errResult :: "env \<Rightarrow> flags \<Rightarrow> error option \<Rightarrow> exit" where
  "errResult E f err =
     (if IsTimeout err then Exit [] [] 5
      else if err = Some ErrExtraButton then Exit (extraButton f @ LineBreak E) [] 1
      else case err of
             Some e \<Rightarrow> Exit [] (Error e @ LineBreak E) (- 1)
           | None \<Rightarrow> Exit [] [] 0)"

definition okResult :: "env \<Rightarrow> flags \<Rightarrow> bool \<Rightarrow> error option \<Rightarrow> exit" where
  "okResult E f ok err =
     (if err \<noteq> None then errResult E f err
      else if ok then Exit [] [] 0
      else Exit [] [] 1)"

definition strResult :: "env \<Rightarrow> flags \<Rightarrow> string \<Rightarrow> error option \<Rightarrow> exit" where
  "strResult E f s err =
     (if err \<noteq> None then errResult E f err
      else if s = [] then Exit [] [] 1
      else Exit (s @ LineBreak E) [] 0)"

text \<open>The slice \<open>l\<close> is \<open>None\<close> when nil; \<open>Some []\<close> is an empty slice that is not nil.\<close>

definition listResult :: "env \<Rightarrow> flags \<Rightarrow> string list option \<Rightarrow> error option \<Rightarrow> exit" where
  "listResult E f l err =
     (if err \<noteq> None then errResult E f err
      else case l of
             None \<Rightarrow> Exit [] [] 1
           | Some items \<Rightarrow> Exit (Join items (Separator f) @ LineBreak E) [] 0)"

definition colorResult :: "env \<Rightarrow> flags \<Rightarrow> color option \<Rightarrow> error option \<Rightarrow> exit" where
  "colorResult E f c err =
     (if err \<noteq> None then errResult E f err
      else case c of
             None \<Rightarrow> Exit [] [] 1
           | Some col \<Rightarrow> Exit (UnparseColor E col @ LineBreak E) [] 0)"

definition strOKResult :: "env \<Rightarrow> flags \<Rightarrow> string \<Rightarrow> bool \<Rightarrow> error option \<Rightarrow> exit" where
  "strOKResult E f s ok err =
     (if err \<noteq> None then errResult E f err
      else if \<not> ok then Exit [] [] 1
      else Exit (s @ LineBreak E) [] 0)"

subsection \<open>\<open>addColumn\<close>\<close>

text \<open>
  \<open>columns\<close> is a package-level Go \<open>int\<close>, initially 0; its width \<open>'w\<close> depends on the
  platform. \<open>columns++\<close> wraps, and \<open>columns <= 1\<close> is a signed comparison. The function
  is modelled with the counter passed in and returned.
\<close>

definition addColumn :: "'w::len word \<Rightarrow> string \<Rightarrow> error option \<times> 'w word" where
  "addColumn columns s =
     (let columns = columns + 1 in
      if sint columns \<le> 1 then (None, columns)
      else (Some (ErrorString ''multiple columns not supported''), columns))"

text \<open>The results of calling \<open>addColumn\<close> once per \<open>--column\<close> flag, in order.\<close>

fun addColumn_calls :: "'w::len word \<Rightarrow> string list \<Rightarrow> error option list" where
  "addColumn_calls columns [] = []"
| "addColumn_calls columns (s # ss) =
     (case addColumn columns s of (r, columns') \<Rightarrow> r # addColumn_calls columns' ss)"

section \<open>The password dialog: \<open>pwd_unix.go\<close>\<close>

text \<open>
  The fields of the struct \<open>options\<close> that \<open>password\<close> reads; the record's extension
  stands for the fields it only passes on.
\<close>

record options =
  ctx :: "Ctx option"
  username :: bool

text \<open>
  The four functions \<open>password\<close> calls and these sources do not hold: \<open>appendTitle\<close>,
  \<open>appendButtons\<close>, the \<open>zenutil.Run\<close> of this platform and the \<open>strResult\<close> of
  package \<open>zenity\<close>. They are parameters, and every statement about \<open>password\<close> holds
  for all of them.
\<close>

record 'o unix_env =
  appendTitle :: "string list \<Rightarrow> 'o \<Rightarrow> string list"
  appendButtons :: "string list \<Rightarrow> 'o \<Rightarrow> string list"
  zenutil_Run :: "Ctx option \<Rightarrow> string list \<Rightarrow> bytes \<times> error option"
  zenity_strResult :: "'o \<Rightarrow> bytes \<Rightarrow> error option \<Rightarrow> string \<times> bool \<times> error option"

text \<open>The argument vector \<open>password\<close> builds before it calls \<open>zenutil.Run\<close>.\<close>

definition password_args ::
  "('a options_scheme) unix_env \<Rightarrow> 'a options_scheme \<Rightarrow> string list" where
  "password_args U opts =
     (let args = [''--password''];
          args = appendTitle U args opts;
          args = appendButtons U args opts;
          args = (if username opts then args @ [''--username''] else args)
      in args)"

definition password ::
  "('a options_scheme) unix_env \<Rightarrow> 'a options_scheme \<Rightarrow>
     string \<times> string \<times> bool \<times> error option" where
  "password U opts =
     (let args = password_args U opts
      in case zenutil_Run U (ctx opts) args of (out, err) \<Rightarrow>
         (case zenity_strResult U opts out err of (str, ok, err) \<Rightarrow>
            (if ok \<and> username opts then
               (let split = SplitN (string_of out) ''|'' 2
                in if length split = 2 then (split ! 0, split ! 1, True, None)
                   else ([], str, ok, err))
             else ([], str, ok, err))))"

section \<open>The scripting-bridge runner: \<open>internal/zenutil/run_darwin.go\<close>\<close>

text \<open>
  The calls \<open>Run\<close> makes into the template set, the operating system and the child
  process, each with the result it has in one run: an error or nil, the path
  \<open>exec.LookPath\<close> finds, the text \<open>ExecuteTemplate\<close> writes, and what \<open>cmd.Output()\<close>
  returns for a command name, its arguments and its standard input. \<open>syscall.Exec\<close>
  returns only when it fails; \<open>None\<close> says that it replaced the process image.
\<close>

record 'd darwin_env =
  ExecuteTemplate :: "string \<Rightarrow> 'd \<Rightarrow> error + string"
  LookPath :: "string \<Rightarrow> error + string"
  TempFile :: "error option"
  Remove :: "error option"
  WriteString :: "string \<Rightarrow> error option"
  Seek :: "error option"
  Dup2 :: "error option"
  StderrClose :: "error option"
  SyscallExec :: "string \<Rightarrow> string list \<Rightarrow> error option"
  cmd_Output :: "string \<Rightarrow> string list \<Rightarrow> string \<Rightarrow> bytes \<times> error option"

text \<open>
  The calls a run made, in order. \<open>CallOutput b name args stdin\<close> is \<open>cmd.Output()\<close> on
  the command \<open>name\<close> with arguments \<open>args\<close> and standard input \<open>stdin\<close>, made with
  \<open>exec.CommandContext\<close> when \<open>b\<close> holds and with \<open>exec.Command\<close> otherwise.
\<close>

datatype event =
    CallLookPath string
  | CallTempFile
  | CallRemove
  | CallWriteString string
  | CallSeek
  | CallDup2
  | CallStderrClose
  | CallSyscallExec string "string list"
  | CallOutput bool string "string list" string

text \<open>\<open>Run\<close> returns a byte slice and an error, or never returns: the process was replaced.\<close>

datatype run_result = Return bytes "error option" | Replaced

text \<open>
  The \<open>if\<close> / \<open>else if\<close> chain under \<open>if Command\<close>: each step runs when all steps
  before it succeeded, and the last one is \<open>syscall.Exec\<close>. The result says whether the
  process image was replaced.
\<close>

definition try_exec :: "'d darwin_env \<Rightarrow> string \<Rightarrow> event list \<times> bool" where
  "try_exec D script =
     (case LookPath D ''osascript'' of
        Inl err \<Rightarrow> ([CallLookPath ''osascript''], False)
      | Inr path \<Rightarrow>
          if TempFile D \<noteq> None then
            ([CallLookPath ''osascript'', CallTempFile], False)
          else if Remove D \<noteq> None then
            ([CallLookPath ''osascript'', CallTempFile, CallRemove], False)
          else if WriteString D script \<noteq> None then
            ([CallLookPath ''osascript'', CallTempFile, CallRemove, CallWriteString script], False)
          else if Seek D \<noteq> None then
            ([CallLookPath ''osascript'', CallTempFile, CallRemove, CallWriteString script,
              CallSeek], False)
          else if Dup2 D \<noteq> None then
            ([CallLookPath ''osascript'', CallTempFile, CallRemove, CallWriteString script,
              CallSeek, CallDup2], False)
          else if StderrClose D \<noteq> None then
            ([CallLookPath ''osascript'', CallTempFile, CallRemove, CallWriteString script,
              CallSeek, CallDup2, CallStderrClose], False)
          else
            ([CallLookPath ''osascript'', CallTempFile, CallRemove, CallWriteString script,
              CallSeek, CallDup2, CallStderrClose,
              CallSyscallExec path [''osascript'', ''-l'', ''JavaScript'']],
             SyscallExec D path [''osascript'', ''-l'', ''JavaScript''] = None))"

text \<open>
  \<open>Run\<close>, with the package variable \<open>Command\<close> as the argument \<open>command\<close> and a nil
  context as \<open>None\<close>.
\<close>

definition Run ::
  "'d darwin_env \<Rightarrow> bool \<Rightarrow> Ctx option \<Rightarrow> string \<Rightarrow> 'd \<Rightarrow> event list \<times> run_result" where
  "Run D command c script data =
     (case ExecuteTemplate D script data of
        Inl err \<Rightarrow> ([], Return None (Some err))
      | Inr script \<Rightarrow>
          (case (if command then try_exec D script else ([], False)) of (evs, replaced) \<Rightarrow>
             if replaced then (evs, Replaced)
             else
               (case c of
                  Some cx \<Rightarrow>
                    (case cmd_Output D ''osascript'' [''-l'', ''JavaScript''] script of
                       (out, err) \<Rightarrow>
                         (let err = (if ctx_Err cx \<noteq> None then ctx_Err cx else err)
                          in (evs @ [CallOutput True ''osascript'' [''-l'', ''JavaScript''] script],
                              Return out err)))
                | None \<Rightarrow>
                    (case cmd_Output D ''osascript'' [''-l'', ''JavaScript''] script of
                       (out, err) \<Rightarrow>
                         (evs @ [CallOutput False ''osascript'' [''-l'', ''JavaScript''] script],
                          Return out err)))))"

section \<open>Concrete environments\<close>

text \<open>The values at which the statements below are evaluated.\<close>

definition example_env :: env where
  "example_env = \<lparr>GOOS = ''linux'', LineBreak = [CHR 0x0A],
     ErrorIcon = 1, InfoIcon = 3, QuestionIcon = 4, WarningIcon = 2, PasswordIcon = 5, NoIcon = 6,
     ParseColor = (\<lambda>s. (0, 0, 0, 255)), UnparseColor = (\<lambda>c. ''rgb(0,0,0)''),
     Output = (\<lambda>args. (None, Some (ErrorString ''executable file not found'')))\<rparr>"

text \<open>
  A host where every step succeeds: the template \<open>dialog\<close> renders to a one-line script
  and the script host exits with status 0 after printing \<open>ok\<close>.
\<close>

definition example_darwin :: "unit darwin_env" where
  "example_darwin = \<lparr>
     ExecuteTemplate = (\<lambda>name d. if name = ''dialog'' then Inr ''display()''
                                  else Inl (ErrorString ''template not defined'')),
     LookPath = (\<lambda>name. Inr ''/usr/bin/osascript''),
     TempFile = None, Remove = None, WriteString = (\<lambda>s. None), Seek = None, Dup2 = None,
     StderrClose = None, SyscallExec = (\<lambda>path argv. None),
     cmd_Output = (\<lambda>name args input. (Some ''ok'', None))\<rparr>"

text \<open>
  A dialog tool that prints the text of \<open>reply\<close> and a line feed and exits with status
  0, and a \<open>strResult\<close> that drops the line feed.
\<close>

definition example_unix :: "string \<Rightarrow> options unix_env" where
  "example_unix reply = \<lparr>
     appendTitle = (\<lambda>args p. args), appendButtons = (\<lambda>args p. args),
     zenutil_Run = (\<lambda>c args. (Some (reply @ [CHR 0x0A]), None)),
     zenity_strResult = (\<lambda>p out err. (TrimSuffix (string_of out) [CHR 0x0A], err = None, err))\<rparr>"

section \<open>Properties of the runner\<close>

lemma try_exec_no_output: "CallOutput b n a i \<notin> set (fst (try_exec D s))"
  by (simp add: try_exec_def split: sum.split)

lemma try_exec_replaced_iff:
  "snd (try_exec D s) \<longleftrightarrow>
     (\<exists>path. LookPath D ''osascript'' = Inr path \<and> TempFile D = None \<and> Remove D = None \<and>
        WriteString D s = None \<and> Seek D = None \<and> Dup2 D = None \<and> StderrClose D = None \<and>
        SyscallExec D path [''osascript'', ''-l'', ''JavaScript''] = None)"
  by (auto simp add: try_exec_def split: sum.split)

lemma example_darwin_try_exec:
  "try_exec example_darwin ''display()'' =
     ([CallLookPath ''osascript'', CallTempFile, CallRemove, CallWriteString ''display()'',
       CallSeek, CallDup2, CallStderrClose,
       CallSyscallExec ''/usr/bin/osascript'' [''osascript'', ''-l'', ''JavaScript'']], True)"
  by (simp add: try_exec_def example_darwin_def)

text \<open>
  C1, as the code has it. With a context and a child process (the process image was not
  replaced): when the context is not done at the time \<open>Run\<close> reads \<open>ctx.Err()\<close>, after
  the child's output was collected, \<open>Run\<close> returns the child's output and error
  unchanged; when it is done by then, \<open>Run\<close> returns the collected output with the
  context's error in place of the child's, whether or not the child had exited
  successfully first. The context's error is \<open>Canceled\<close> or \<open>DeadlineExceeded\<close>, never
  an exit error of the process.
\<close>

theorem Run_context_result:
  assumes "ExecuteTemplate D script data = Inr s"
    and "snd (Run D command (Some cx) script data) \<noteq> Replaced"
    and "cmd_Output D ''osascript'' [''-l'', ''JavaScript''] s = (out, perr)"
  shows "(ctx_Err cx = None \<longrightarrow> snd (Run D command (Some cx) script data) = Return out perr) \<and>
         (\<forall>e. ctx_Err cx = Some e \<longrightarrow>
            snd (Run D command (Some cx) script data) = Return out (Some e) \<and>
            (e = Canceled \<or> e = DeadlineExceeded) \<and> (\<forall>n t. e \<noteq> ExitError n t))"
proof -
  obtain evs r where te: "(if command then try_exec D s else ([], False)) = (evs, r)"
    by (cases "(if command then try_exec D s else ([], False))")
  have nr: "\<not> r" using assms(1,2) te by (cases r) (auto simp add: Run_def)
  have res: "snd (Run D command (Some cx) script data) =
      Return out (if ctx_Err cx \<noteq> None then ctx_Err cx else perr)"
    using assms(1,3) te nr by (simp add: Run_def)
  have cause: "e = Canceled \<or> e = DeadlineExceeded" if "ctx_Err cx = Some e" for e
  proof -
    from that obtain k where "e = ctx_error k" by (cases cx) auto
    then show ?thesis by (cases k) auto
  qed
  show ?thesis using res cause by auto
qed

theorem Run_context_result_witness:
  "snd (Run example_darwin False (Some Live) ''dialog'' ()) = Return (Some ''ok'') None \<and>
   snd (Run example_darwin False (Some (FiredBeforeExit CtxCanceled)) ''dialog'' ()) =
     Return (Some ''ok'') (Some Canceled)"
proof -
  have t: "ExecuteTemplate example_darwin ''dialog'' () = Inr ''display()''"
    by (simp add: example_darwin_def)
  have o: "cmd_Output example_darwin ''osascript'' [''-l'', ''JavaScript''] ''display()'' =
      (Some ''ok'', None)"
    by (simp add: example_darwin_def)
  have n: "snd (Run example_darwin False (Some cx) ''dialog'' ()) \<noteq> Replaced" for cx
    by (simp add: Run_def example_darwin_def)
  show ?thesis
    using Run_context_result [OF t n o, of Live]
      Run_context_result [OF t n o, of "FiredBeforeExit CtxCanceled"]
    by simp
qed

text \<open>
  C1, as stated, fails: the child exits with status 0 and the output \<open>ok\<close>, the deadline
  passes after that exit and before \<open>Run\<close> reads \<open>ctx.Err()\<close>, and \<open>Run\<close> returns the
  deadline error instead of the success.
\<close>

theorem Run_success_not_honored_counterexample:
  "cmd_Output example_darwin ''osascript'' [''-l'', ''JavaScript''] ''display()'' =
     (Some ''ok'', None) \<and>
   Run example_darwin False (Some (FiredAfterExit CtxDeadlineExceeded)) ''dialog'' () =
     ([CallOutput True ''osascript'' [''-l'', ''JavaScript''] ''display()''],
      Return (Some ''ok'') (Some DeadlineExceeded))"
  by (simp add: Run_def example_darwin_def)

text \<open>
  C2, as the code has it. After the template rendered, the process image is replaced
  exactly when the runner is in command mode and every step of the exec path, down to
  \<open>syscall.Exec\<close>, succeeds: the context plays no part. In every other case a child
  process is used, and it is bound to the context exactly when there is one.
\<close>

theorem Run_exec_replace_iff:
  assumes "ExecuteTemplate D script data = Inr s"
  shows "(snd (Run D command c script data) = Replaced \<longleftrightarrow>
           command \<and> (\<exists>path. LookPath D ''osascript'' = Inr path \<and> TempFile D = None \<and>
             Remove D = None \<and> WriteString D s = None \<and> Seek D = None \<and> Dup2 D = None \<and>
             StderrClose D = None \<and>
             SyscallExec D path [''osascript'', ''-l'', ''JavaScript''] = None)) \<and>
         (snd (Run D command c script data) \<noteq> Replaced \<longrightarrow>
           (\<exists>evs. fst (Run D command c script data) =
              evs @ [CallOutput (c \<noteq> None) ''osascript'' [''-l'', ''JavaScript''] s]))"
proof -
  obtain evs r where te: "(if command then try_exec D s else ([], False)) = (evs, r)"
    by (cases "(if command then try_exec D s else ([], False))")
  have r: "r \<longleftrightarrow> command \<and> snd (try_exec D s)"
    using te by (auto split: if_splits)
  have res: "snd (Run D command c script data) = Replaced \<longleftrightarrow> r"
    using assms te by (cases r; cases c) (auto simp add: Run_def split: prod.splits)
  have ev: "\<not> r \<Longrightarrow> fst (Run D command c script data) =
      evs @ [CallOutput (c \<noteq> None) ''osascript'' [''-l'', ''JavaScript''] s]"
    using assms te by (cases c) (auto simp add: Run_def split: prod.splits)
  show ?thesis
    using res r ev try_exec_replaced_iff [of D s] by blast
qed

theorem Run_exec_replace_iff_witness:
  "snd (Run example_darwin True (Some Live) ''dialog'' ()) = Replaced \<and>
   snd (Run example_darwin True None ''dialog'' ()) = Replaced \<and>
   snd (Run example_darwin False (Some Live) ''dialog'' ()) \<noteq> Replaced"
proof -
  have t: "ExecuteTemplate example_darwin ''dialog'' () = Inr ''display()''"
    by (simp add: example_darwin_def)
  show ?thesis
    using Run_exec_replace_iff [OF t, of True "Some Live"]
      Run_exec_replace_iff [OF t, of True None]
      Run_exec_replace_iff [OF t, of False "Some Live"]
    by (simp add: example_darwin_def)
qed

text \<open>
  C2, as stated, fails: \<open>main\<close> sets command mode and, for a timeout of 5 seconds,
  appends a context; with that context \<open>Run\<close> still takes the exec path and replaces
  the process image, and no child process is started.
\<close>

theorem exec_replace_with_context_counterexample:
  "main_setup (setupFlags\<lparr>Timeout := 5\<rparr>) [] Live =
     ([Context Live], setupFlags\<lparr>Timeout := 5, Command := True\<rparr>) \<and>
   Run example_darwin True (Some Live) ''dialog'' () =
     ([CallLookPath ''osascript'', CallTempFile, CallRemove, CallWriteString ''display()'',
       CallSeek, CallDup2, CallStderrClose,
       CallSyscallExec ''/usr/bin/osascript'' [''osascript'', ''-l'', ''JavaScript'']],
      Replaced)"
proof -
  have m: "main_setup (setupFlags\<lparr>Timeout := 5\<rparr>) [] Live =
      ([Context Live], setupFlags\<lparr>Timeout := 5, Command := True\<rparr>)"
    by (simp add: main_setup_def)
  have t: "ExecuteTemplate example_darwin ''dialog'' () = Inr ''display()''"
    by (simp add: example_darwin_def)
  show ?thesis
    using m t by (simp add: Run_def example_darwin_try_exec)
qed

text \<open>
  C7. Every call of \<open>cmd.Output()\<close> that \<open>Run\<close> makes is on the command \<open>osascript\<close>
  with the arguments \<open>-l JavaScript\<close>, whatever the template and the data are, and its
  standard input is the script the template rendered; the command is bound to the
  context exactly when there is one.
\<close>

theorem Run_script_on_stdin:
  assumes "CallOutput b name args input \<in> set (fst (Run D command c script data))"
  shows "name = ''osascript'' \<and> args = [''-l'', ''JavaScript''] \<and>
         ExecuteTemplate D script data = Inr input \<and> b = (c \<noteq> None)"
proof (cases "ExecuteTemplate D script data")
  case (Inl err)
  then show ?thesis using assms by (simp add: Run_def)
next
  case (Inr s)
  obtain evs r where te: "(if command then try_exec D s else ([], False)) = (evs, r)"
    by (cases "(if command then try_exec D s else ([], False))")
  have no: "CallOutput b name args input \<notin> set evs"
    using te try_exec_no_output [of b name args input D s] by (auto split: if_splits)
  show ?thesis
    using assms Inr te no
    by (cases r; cases c) (auto simp add: Run_def split: prod.splits)
qed

theorem Run_script_on_stdin_witness:
  "CallOutput False ''osascript'' [''-l'', ''JavaScript''] ''display()''
     \<in> set (fst (Run example_darwin False None ''dialog'' ())) \<and>
   ExecuteTemplate example_darwin ''dialog'' () = Inr ''display()''"
proof -
  have h: "CallOutput False ''osascript'' [''-l'', ''JavaScript''] ''display()''
      \<in> set (fst (Run example_darwin False None ''dialog'' ()))"
    by (simp add: Run_def example_darwin_def)
  show ?thesis using h Run_script_on_stdin [OF h] by simp
qed

text \<open>
  C8. When rendering the template fails, \<open>Run\<close> returns a nil output with that error
  and has made no call: no step of the exec path and no child process.
\<close>

theorem Run_template_error:
  assumes "ExecuteTemplate D script data = Inl err"
  shows "Run D command c script data = ([], Return None (Some err))"
  using assms by (simp add: Run_def)

theorem Run_template_error_witness:
  "ExecuteTemplate example_darwin ''missing'' () = Inl (ErrorString ''template not defined'') \<and>
   Run example_darwin True (Some Live) ''missing'' () =
     ([], Return None (Some (ErrorString ''template not defined'')))"
proof -
  have h: "ExecuteTemplate example_darwin ''missing'' () =
      Inl (ErrorString ''template not defined'')"
    by (simp add: example_darwin_def)
  show ?thesis using h Run_template_error [OF h, of True "Some Live"] by simp
qed

section \<open>Properties of the front end\<close>

subsection \<open>List columns\<close>

lemma sint_succ:
  fixes c :: "'w::len word"
  assumes "0 \<le> sint c" "sint c + 1 < 2 ^ (LENGTH('w) - 1)"
  shows "sint (c + 1) = sint c + 1"
proof -
  have "1 < (2::int) ^ (LENGTH('w) - 1)" using assms by linarith
  then have "LENGTH('w) - 1 \<noteq> 0" by (metis less_irrefl power_0)
  then have one: "sint (1 :: 'w word) = 1" by simp
  have "sint (c + 1) = signed_take_bit (LENGTH('w) - 1) (sint c + sint (1 :: 'w word))"
    by (rule sint_word_ariths)
  also have "\<dots> = sint c + 1"
    using assms one by (simp add: signed_take_bit_int_eq_self)
  finally show ?thesis .
qed

lemma addColumn_calls_later:
  fixes c :: "'w::len word"
  shows "1 \<le> sint c \<Longrightarrow> sint c + int (length ss) < 2 ^ (LENGTH('w) - 1) \<Longrightarrow>
    addColumn_calls c ss = map (\<lambda>_. Some (ErrorString ''multiple columns not supported'')) ss"
proof (induction ss arbitrary: c)
  case Nil
  then show ?case by simp
next
  case (Cons s ss)
  have step: "sint (c + 1) = sint c + 1"
    using Cons.prems by (intro sint_succ) auto
  have "addColumn_calls (c + 1) ss =
      map (\<lambda>_. Some (ErrorString ''multiple columns not supported'')) ss"
    using Cons.prems step by (intro Cons.IH) auto
  then show ?case using Cons.prems step by (simp add: addColumn_def)
qed

text \<open>
  C3. Starting from the initial counter 0, the first \<open>--column\<close> addition succeeds and
  every later one returns the error "multiple columns not supported". The counter is a
  machine integer of \<open>LENGTH('w)\<close> bits, so the statement covers every run of fewer than
  \<open>2 ^ (LENGTH('w) - 1)\<close> additions, the runs in which \<open>columns++\<close> does not wrap.
\<close>

theorem addColumn_first_only:
  fixes ss :: "string list"
  assumes "int (length ss) < 2 ^ (LENGTH('w::len) - 1)"
  shows "addColumn_calls (0 :: 'w word) ss =
    (case ss of [] \<Rightarrow> [] | s # rest \<Rightarrow>
       None # map (\<lambda>_. Some (ErrorString ''multiple columns not supported'')) rest)"
proof (cases ss)
  case Nil
  then show ?thesis by simp
next
  case (Cons s rest)
  have "1 < (2::int) ^ (LENGTH('w) - 1)" using assms Cons by simp
  then have "LENGTH('w) - 1 \<noteq> 0" by (metis less_irrefl power_0)
  then have one: "sint (1 :: 'w word) = 1" by simp
  have "addColumn_calls (1 :: 'w word) rest =
      map (\<lambda>_. Some (ErrorString ''multiple columns not supported'')) rest"
    using assms Cons one by (intro addColumn_calls_later) auto
  then show ?thesis using Cons one by (simp add: addColumn_def)
qed

theorem addColumn_first_only_witness:
  "int (length [''A'', ''B'', ''C'']) < 2 ^ (LENGTH(64) - 1) \<and>
   addColumn_calls (0 :: 64 word) [''A'', ''B'', ''C''] =
     [None, Some (ErrorString ''multiple columns not supported''),
      Some (ErrorString ''multiple columns not supported'')]"
  using addColumn_first_only [where 'w = 64 and ss = "[''A'', ''B'', ''C'']"] by simp

subsection \<open>Exit codes and streams\<close>

text \<open>
  C4, as the code has it. A timeout ends the process with code 5 and prints nothing;
  the extra button prints its label and a line break on standard output and ends with
  code 1; any other error prints its text and a line break on standard error and ends
  with code -1. "No selection" (not confirmed, an empty string, a nil list, a nil color)
  prints nothing and ends with code 1, the code of the extra button. A value is printed
  on standard output, followed by a line break, with code 0. Every result function
  hands an error over to \<open>errResult\<close>.
\<close>

theorem exit_outcomes:
  shows "(IsTimeout err \<longrightarrow> errResult E f err = Exit [] [] 5) \<and>
         errResult E f (Some ErrExtraButton) = Exit (extraButton f @ LineBreak E) [] 1 \<and>
         (\<not> IsTimeout (Some e) \<and> e \<noteq> ErrExtraButton \<longrightarrow>
            errResult E f (Some e) = Exit [] (Error e @ LineBreak E) (- 1)) \<and>
         errResult E f None = Exit [] [] 0 \<and>
         okResult E f False None = Exit [] [] 1 \<and>
         strResult E f [] None = Exit [] [] 1 \<and>
         listResult E f None None = Exit [] [] 1 \<and>
         colorResult E f None None = Exit [] [] 1 \<and>
         strOKResult E f s False None = Exit [] [] 1 \<and>
         okResult E f True None = Exit [] [] 0 \<and>
         (s \<noteq> [] \<longrightarrow> strResult E f s None = Exit (s @ LineBreak E) [] 0) \<and>
         listResult E f (Some l) None = Exit (Join l (Separator f) @ LineBreak E) [] 0 \<and>
         colorResult E f (Some c) None = Exit (UnparseColor E c @ LineBreak E) [] 0 \<and>
         strOKResult E f s True None = Exit (s @ LineBreak E) [] 0 \<and>
         okResult E f ok (Some e) = errResult E f (Some e) \<and>
         strResult E f s (Some e) = errResult E f (Some e) \<and>
         listResult E f ll (Some e) = errResult E f (Some e) \<and>
         colorResult E f cc (Some e) = errResult E f (Some e) \<and>
         strOKResult E f s ok (Some e) = errResult E f (Some e)"
  by (simp add: errResult_def okResult_def strResult_def listResult_def colorResult_def
      strOKResult_def)

theorem exit_outcomes_witness:
  "errResult example_env setupFlags (Some DeadlineExceeded) = Exit [] [] 5 \<and>
   errResult example_env setupFlags (Some (ExitError 2 ''exit status 2'')) =
     Exit [] (''exit status 2'' @ [CHR 0x0A]) (- 1) \<and>
   strResult example_env setupFlags ''/tmp/a'' None = Exit (''/tmp/a'' @ [CHR 0x0A]) [] 0"
  using exit_outcomes [of "Some DeadlineExceeded" example_env setupFlags
      "ExitError 2 ''exit status 2''" "''/tmp/a''"]
  by (simp add: example_env_def)

text \<open>
  C4, as stated, fails: pressing the extra button and making no selection end the process
  with the same code, 1.
\<close>

theorem exit_codes_counterexample:
  "code (errResult example_env (setupFlags\<lparr>extraButton := ''Later''\<rparr>) (Some ErrExtraButton)) = 1 \<and>
   code (strOKResult example_env (setupFlags\<lparr>extraButton := ''Later''\<rparr>) [] False None) = 1"
  by (simp add: errResult_def strOKResult_def Exit_def)

subsection \<open>The unspecified sentinel\<close>

lemma if_snoc: "(if b then xs @ ys else xs) = xs @ (if b then ys else [])"
  by simp

lemma loadFlags_flat:
  "loadFlags E f0 =
     ((if title (loadDefaults f0) \<noteq> unspecified then [Title (title (loadDefaults f0))] else []) @
      [Width (width (loadDefaults f0)), Height (height (loadDefaults f0))] @
      (if okLabel (loadDefaults f0) \<noteq> unspecified then [OKLabel (okLabel (loadDefaults f0))] else []) @
      (if cancelLabel (loadDefaults f0) \<noteq> unspecified
       then [CancelLabel (cancelLabel (loadDefaults f0))] else []) @
      (if extraButton (loadDefaults f0) \<noteq> unspecified
       then [ExtraButton (extraButton (loadDefaults f0))] else []) @
      [Icon (loadIcon E (icon (loadDefaults f0)))] @
      (if noWrap (loadDefaults f0) then [NoWrap] else []) @
      (if ellipsize (loadDefaults f0) then [Ellipsize] else []) @
      (if defaultCancel (loadDefaults f0) then [DefaultCancel] else []) @
      [EntryText (entryText (loadDefaults f0))] @
      (if hideText (loadDefaults f0) then [HideText] else []) @
      (if \<not> allowEmpty (loadDefaults f0) then [DisallowEmpty] else []) @
      (if directory (loadDefaults f0) then [Directory] else []) @
      (if confirmOverwrite (loadDefaults f0) then [ConfirmOverwrite] else []) @
      (if confirmCreate (loadDefaults f0) then [ConfirmCreate] else []) @
      (if showHidden (loadDefaults f0) then [ShowHidden] else []) @
      (if filename (loadDefaults f0) \<noteq> []
       then [Filename (ingestPath E (loadDefaults f0) (filename (loadDefaults f0)))] else []) @
      [FileFilters (fileFilters (loadDefaults f0))] @
      (if defaultColor (loadDefaults f0) \<noteq> []
       then [Color (ParseColor E (defaultColor (loadDefaults f0)))] else []) @
      (if showPalette (loadDefaults f0) then [ShowPalette] else []),
      loadDefaults f0)"
  unfolding loadFlags_def if_snoc Let_def by simp

lemma loadDefaults_title: "title f \<noteq> unspecified \<Longrightarrow> title (loadDefaults f) = title f"
  by (simp add: loadDefaults_def setDefault_def)

lemma loadDefaults_okLabel: "okLabel f \<noteq> unspecified \<Longrightarrow> okLabel (loadDefaults f) = okLabel f"
  by (simp add: loadDefaults_def setDefault_def)

lemma loadDefaults_cancelLabel:
  "cancelLabel f \<noteq> unspecified \<Longrightarrow> cancelLabel (loadDefaults f) = cancelLabel f"
  by (simp add: loadDefaults_def setDefault_def)

lemma loadDefaults_extraButton: "extraButton (loadDefaults f) = extraButton f"
  by (simp add: loadDefaults_def)

lemma loadDefaults_text: "text f \<noteq> unspecified \<Longrightarrow> text (loadDefaults f) = text f"
  by (simp add: loadDefaults_def setDefault_def)

text \<open>
  C5, as the code has it, for the title and the three button labels: a value that still
  equals the sentinel after defaulting adds no option of its kind, any other value is
  in the options exactly as it is, and defaulting leaves a value that differs from the
  sentinel (an explicit one, the empty string included) unchanged. The icon is different:
  its option is always added, and carries the number the icon's name translates to.
  The text is no option; defaulting leaves an explicit text unchanged.
\<close>

theorem loadFlags_labels:
  assumes "loadFlags E f0 = (opts, f)"
  shows "(title f = unspecified \<longrightarrow> (\<forall>s. Title s \<notin> set opts)) \<and>
         (title f \<noteq> unspecified \<longrightarrow> Title (title f) \<in> set opts) \<and>
         (title f0 \<noteq> unspecified \<longrightarrow> title f = title f0) \<and>
         (okLabel f = unspecified \<longrightarrow> (\<forall>s. OKLabel s \<notin> set opts)) \<and>
         (okLabel f \<noteq> unspecified \<longrightarrow> OKLabel (okLabel f) \<in> set opts) \<and>
         (okLabel f0 \<noteq> unspecified \<longrightarrow> okLabel f = okLabel f0) \<and>
         (cancelLabel f = unspecified \<longrightarrow> (\<forall>s. CancelLabel s \<notin> set opts)) \<and>
         (cancelLabel f \<noteq> unspecified \<longrightarrow> CancelLabel (cancelLabel f) \<in> set opts) \<and>
         (cancelLabel f0 \<noteq> unspecified \<longrightarrow> cancelLabel f = cancelLabel f0) \<and>
         (extraButton f = unspecified \<longrightarrow> (\<forall>s. ExtraButton s \<notin> set opts)) \<and>
         (extraButton f \<noteq> unspecified \<longrightarrow> ExtraButton (extraButton f) \<in> set opts) \<and>
         extraButton f = extraButton f0 \<and>
         Icon (loadIcon E (icon f)) \<in> set opts \<and>
         (text f0 \<noteq> unspecified \<longrightarrow> text f = text f0)"
proof -
  have f: "f = loadDefaults f0" using assms by (simp add: loadFlags_flat)
  have opts: "opts = fst (loadFlags E f0)" using assms by simp
  have t1: "title f = unspecified \<longrightarrow> (\<forall>s. Title s \<notin> set opts)"
    unfolding opts f loadFlags_flat by simp
  have t2: "title f \<noteq> unspecified \<longrightarrow> Title (title f) \<in> set opts"
    unfolding opts f loadFlags_flat by simp
  have o1: "okLabel f = unspecified \<longrightarrow> (\<forall>s. OKLabel s \<notin> set opts)"
    unfolding opts f loadFlags_flat by simp
  have o2: "okLabel f \<noteq> unspecified \<longrightarrow> OKLabel (okLabel f) \<in> set opts"
    unfolding opts f loadFlags_flat by simp
  have c1: "cancelLabel f = unspecified \<longrightarrow> (\<forall>s. CancelLabel s \<notin> set opts)"
    unfolding opts f loadFlags_flat by simp
  have c2: "cancelLabel f \<noteq> unspecified \<longrightarrow> CancelLabel (cancelLabel f) \<in> set opts"
    unfolding opts f loadFlags_flat by simp
  have e1: "extraButton f = unspecified \<longrightarrow> (\<forall>s. ExtraButton s \<notin> set opts)"
    unfolding opts f loadFlags_flat by simp
  have e2: "extraButton f \<noteq> unspecified \<longrightarrow> ExtraButton (extraButton f) \<in> set opts"
    unfolding opts f loadFlags_flat by simp
  have i: "Icon (loadIcon E (icon f)) \<in> set opts"
    unfolding opts f loadFlags_flat by simp
  show ?thesis
    using t1 t2 o1 o2 c1 c2 e1 e2 i
    by (simp add: f loadDefaults_title loadDefaults_okLabel loadDefaults_cancelLabel
        loadDefaults_extraButton loadDefaults_text)
qed

theorem loadFlags_labels_witness:
  "Title [] \<in> set (fst (loadFlags example_env (setupFlags\<lparr>entryDlg := True, title := []\<rparr>))) \<and>
   OKLabel ''OK'' \<in> set (fst (loadFlags example_env (setupFlags\<lparr>entryDlg := True, title := []\<rparr>))) \<and>
   ExtraButton ''Later''
     \<notin> set (fst (loadFlags example_env (setupFlags\<lparr>entryDlg := True, title := []\<rparr>)))"
proof -
  have h: "loadFlags example_env (setupFlags\<lparr>entryDlg := True, title := []\<rparr>) =
      (fst (loadFlags example_env (setupFlags\<lparr>entryDlg := True, title := []\<rparr>)),
       snd (loadFlags example_env (setupFlags\<lparr>entryDlg := True, title := []\<rparr>)))"
    by simp
  have s: "snd (loadFlags example_env (setupFlags\<lparr>entryDlg := True, title := []\<rparr>)) =
      loadDefaults (setupFlags\<lparr>entryDlg := True, title := []\<rparr>)"
    by (simp add: loadFlags_flat)
  have d: "title (loadDefaults (setupFlags\<lparr>entryDlg := True, title := []\<rparr>)) = [] \<and>
      okLabel (loadDefaults (setupFlags\<lparr>entryDlg := True, title := []\<rparr>)) = ''OK'' \<and>
      extraButton (loadDefaults (setupFlags\<lparr>entryDlg := True, title := []\<rparr>)) = unspecified"
    by (simp add: loadDefaults_def setupFlags_def setDefault_def unspecified_def)
  show ?thesis
    using loadFlags_labels [OF h] d unfolding s by (simp add: unspecified_def)
qed

text \<open>
  C5, as stated, fails for the icon: in an entry dialog with no icon flag the icon still
  equals the sentinel after defaulting, and the options hold an icon option all the same.
\<close>

theorem icon_not_omitted_counterexample:
  "icon (snd (loadFlags example_env (setupFlags\<lparr>entryDlg := True\<rparr>))) = unspecified \<and>
   Icon 0 \<in> set (fst (loadFlags example_env (setupFlags\<lparr>entryDlg := True\<rparr>)))"
  by (simp add: loadFlags_flat loadDefaults_def setupFlags_def setDefault_def loadIcon_def
      unspecified_def example_env_def)

subsection \<open>Joining and splitting\<close>

text \<open>
  The bound on the number of cuts in \<open>SplitN\<close> for a negative count loses nothing: an
  instance of a non-empty separator lies inside the string, every cut shortens the
  string, and any bound of at least the string's length gives the same substrings.
\<close>

lemma Index_bound: "Index s sep = Some m \<Longrightarrow> m + length sep \<le> length s"
proof (induction s arbitrary: m)
  case Nil
  then show ?case by (auto split: if_splits)
next
  case (Cons c s)
  show ?case
  proof (cases "take (length sep) (c # s) = sep")
    case True
    have "length (take (length sep) (c # s)) \<le> length (c # s)" by simp
    with True have "length sep \<le> length (c # s)" by simp
    with True Cons.prems show ?thesis by simp
  next
    case False
    with Cons.prems obtain k where "Index s sep = Some k" "m = Suc k" by auto
    with Cons.IH show ?thesis by auto
  qed
qed

lemma genSplit_fuel:
  "sep \<noteq> [] \<Longrightarrow> length s \<le> n \<Longrightarrow> genSplit n s sep = genSplit (length s) s sep"
proof (induction "length s" arbitrary: s n rule: less_induct)
  case less
  show ?case
  proof (cases "Index s sep")
    case None
    then show ?thesis by (cases n; cases "length s") auto
  next
    case (Some m)
    have bd: "m + length sep \<le> length s" by (rule Index_bound [OF Some])
    have sp: "0 < length sep" using less.prems(1) by simp
    have pos: "0 < length s" using bd sp by linarith
    have lt: "length (drop (m + length sep) s) < length s"
      using bd sp pos by simp
    obtain n' where n: "n = Suc n'" using less.prems pos by (cases n) auto
    obtain k where k: "length s = Suc k" using pos by (cases "length s") auto
    define r where "r = drop (m + length sep) s"
    have lt': "length r < length s" using lt by (simp add: r_def)
    have ln: "length r \<le> n'" using lt' less.prems(2) n by linarith
    have lk: "length r \<le> k" using lt' k by linarith
    have a: "genSplit n' r sep = genSplit (length r) r sep"
      by (rule less.hyps [OF lt' less.prems(1) ln])
    have b: "genSplit k r sep = genSplit (length r) r sep"
      by (rule less.hyps [OF lt' less.prems(1) lk])
    have "genSplit n s sep = take m s # genSplit n' r sep"
      unfolding n r_def using Some by simp
    moreover have "genSplit (length s) s sep = take m s # genSplit k r sep"
      unfolding k r_def using Some by simp
    ultimately show ?thesis using a b by simp
  qed
qed

lemma Index_absent: "c \<notin> set s \<Longrightarrow> Index s [c] = None"
  by (induction s) auto

lemma Index_first: "c \<notin> set x \<Longrightarrow> Index (x @ c # r) [c] = Some (length x)"
  by (induction x) auto

lemma Index_takeWhile:
  "c \<in> set s \<Longrightarrow> Index s [c] = Some (length (takeWhile (\<lambda>a. a \<noteq> c) s))"
  by (induction s) auto

lemma genSplit_absent: "c \<notin> set s \<Longrightarrow> genSplit n s [c] = [s]"
  by (cases n) (simp_all add: Index_absent)

lemma genSplit_Join:
  "l \<noteq> [] \<Longrightarrow> \<forall>x\<in>set l. c \<notin> set x \<Longrightarrow> length l - 1 \<le> n \<Longrightarrow>
     genSplit n (Join l [c]) [c] = l"
proof (induction l "[c]" arbitrary: n rule: Join.induct)
  case 1
  then show ?case by simp
next
  case (2 x)
  then show ?case by (simp add: genSplit_absent)
next
  case (3 x y ys)
  from "3.prems" obtain m where n: "n = Suc m" and m: "length (y # ys) - 1 \<le> m"
    by (cases n) auto
  have cx: "c \<notin> set x" using "3.prems" by simp
  have rest: "genSplit m (Join (y # ys) [c]) [c] = y # ys"
    using "3.prems" m by (intro "3.hyps") auto
  show ?case using cx rest n by (simp add: Index_first)
qed

lemma length_Join: "length l - 1 \<le> length (Join l [c])"
  by (induction l "[c]" rule: Join.induct) auto

lemma Split_Join: "l \<noteq> [] \<Longrightarrow> \<forall>x\<in>set l. c \<notin> set x \<Longrightarrow> Split (Join l [c]) [c] = l"
  using genSplit_Join [of l c "length (Join l [c])"] length_Join [of l c]
  by (simp add: Split_def SplitN_def)

text \<open>
  C9, for the lists that are not empty. When no item contains the separator character,
  \<open>listResult\<close> prints the items joined with it, followed by the line break, and
  splitting the joined string on the same separator gives the items back.
\<close>

theorem list_roundtrip:
  assumes "l \<noteq> []" and "\<forall>x\<in>set l. c \<notin> set x" and "Separator f = [c]"
  shows "stdout (listResult E f (Some l) None) = Join l [c] @ LineBreak E \<and>
         Split (Join l [c]) [c] = l"
  using assms Split_Join [of l c] by (simp add: listResult_def Exit_def)

theorem list_roundtrip_witness:
  "stdout (listResult example_env setupFlags (Some [''a.txt'', [], ''b c'']) None) =
     ''a.txt||b c'' @ [CHR 0x0A] \<and>
   Split ''a.txt||b c'' ''|'' = [''a.txt'', [], ''b c'']"
  using list_roundtrip [of "[''a.txt'', [], ''b c'']" "CHR ''|''" setupFlags example_env]
  by (simp add: setupFlags_def example_env_def)

text \<open>
  C9, as stated, fails at the empty list: \<open>listResult\<close> prints it as the empty string
  and a line break, and the empty string splits into one empty item.
\<close>

theorem empty_list_roundtrip_counterexample:
  "stdout (listResult example_env setupFlags (Some []) None) = Join [] ''|'' @ [CHR 0x0A] \<and>
   Split (Join [] ''|'') ''|'' = [[]] \<and> Split (Join [] ''|'') ''|'' \<noteq> []"
  by (simp add: Split_def SplitN_def listResult_def Exit_def setupFlags_def example_env_def)

section \<open>Properties of the password dialog\<close>

lemma SplitN_2_present:
  assumes "c \<in> set s"
  shows "SplitN s [c] 2 = [takeWhile (\<lambda>a. a \<noteq> c) s, tl (dropWhile (\<lambda>a. a \<noteq> c) s)]"
proof -
  have two: "nat 2 - 1 = Suc 0" by simp
  have d: "drop (Suc (length (takeWhile (\<lambda>a. a \<noteq> c) s))) s = tl (dropWhile (\<lambda>a. a \<noteq> c) s)"
    using assms by (induction s) auto
  have t: "take (length (takeWhile (\<lambda>a. a \<noteq> c) s)) s = takeWhile (\<lambda>a. a \<noteq> c) s"
    by (induction s) auto
  show ?thesis
    using assms d t by (simp add: SplitN_def two Index_takeWhile)
qed

lemma SplitN_2_absent:
  assumes "c \<notin> set s"
  shows "SplitN s [c] 2 = [s]"
proof -
  have two: "nat 2 - 1 = Suc 0" by simp
  show ?thesis using assms by (simp add: SplitN_def two Index_absent)
qed

text \<open>
  C6. With the username option set, when \<open>strResult\<close> reports success and the output of
  the dialog tool contains a \<open>|\<close>, \<open>password\<close> returns the output before the first \<open>|\<close> as
  the username and everything after that \<open>|\<close> as the password, with ok = true and a nil
  error.
\<close>

theorem password_username_pair:
  assumes "username opts"
    and "zenutil_Run U (ctx opts) (password_args U opts) = (out, err)"
    and "zenity_strResult U opts out err = (str, True, err')"
    and "CHR ''|'' \<in> set (string_of out)"
  shows "password U opts =
    (takeWhile (\<lambda>a. a \<noteq> CHR ''|'') (string_of out),
     tl (dropWhile (\<lambda>a. a \<noteq> CHR ''|'') (string_of out)), True, None)"
  using assms by (simp add: password_def SplitN_2_present)

theorem password_username_pair_witness:
  "username \<lparr>ctx = None, username = True\<rparr> \<and>
   password (example_unix ''bob|s3|cret'') \<lparr>ctx = None, username = True\<rparr> =
     (''bob'', ''s3|cret'' @ [CHR 0x0A], True, None)"
  using password_username_pair [of "\<lparr>ctx = None, username = True\<rparr>"
      "example_unix ''bob|s3|cret''" "Some (''bob|s3|cret'' @ [CHR 0x0A])" None
      "''bob|s3|cret''" None]
  by (simp add: example_unix_def TrimSuffix_def password_args_def)

text \<open>
  C10. With the username option set, when \<open>strResult\<close> reports success with a nil error
  and the output of the dialog tool contains no \<open>|\<close>, \<open>password\<close> returns an empty
  username and, as the password, the whole string \<open>strResult\<close> made of the output, with
  ok = true and a nil error.
\<close>

theorem password_no_separator:
  assumes "username opts"
    and "zenutil_Run U (ctx opts) (password_args U opts) = (out, err)"
    and "zenity_strResult U opts out err = (str, True, None)"
    and "CHR ''|'' \<notin> set (string_of out)"
  shows "password U opts = ([], str, True, None)"
  using assms by (simp add: password_def SplitN_2_absent)

theorem password_no_separator_witness:
  "username \<lparr>ctx = None, username = True\<rparr> \<and>
   password (example_unix ''secret'') \<lparr>ctx = None, username = True\<rparr> =
     ([], ''secret'', True, None)"
  using password_no_separator [of "\<lparr>ctx = None, username = True\<rparr>"
      "example_unix ''secret''" "Some (''secret'' @ [CHR 0x0A])" None "''secret''"]
  by (simp add: example_unix_def TrimSuffix_def password_args_def)

end
